theory Spec2Isabelle
  imports Complex_Main
begin

section \<open>Python strings\<close>

text \<open>
  A Python \<open>str\<close> is a sequence of Unicode code points, and \<open>len\<close>, \<open>strip\<close>,
  \<open>split\<close>, \<open>replace\<close> and the \<open>re\<close> module all work on code points. A string is
  therefore a list of code points (natural numbers), not a list of bytes.
\<close>

type_synonym ustr = "nat list"

definition of_ascii :: "string \<Rightarrow> ustr" where
  "of_ascii s = map of_char s"

abbreviation NL :: nat where "NL \<equiv> 10"
abbreviation SP :: nat where "SP \<equiv> 32"

text \<open>
  The characters for which \<open>str.isspace\<close> holds; \<open>str.strip()\<close> with no argument
  removes exactly these from both ends.
\<close>

definition py_whitespace :: "nat list" where
  "py_whitespace =
     [0x09, 0x0A, 0x0B, 0x0C, 0x0D, 0x1C, 0x1D, 0x1E, 0x1F, 0x20, 0x85, 0xA0, 0x1680,
      0x2000, 0x2001, 0x2002, 0x2003, 0x2004, 0x2005, 0x2006, 0x2007, 0x2008, 0x2009,
      0x200A, 0x2028, 0x2029, 0x202F, 0x205F, 0x3000]"

definition isspace :: "nat \<Rightarrow> bool" where
  "isspace c = (c \<in> set py_whitespace)"

definition lstrip :: "ustr \<Rightarrow> ustr" where
  "lstrip s = dropWhile isspace s"

definition rstrip :: "ustr \<Rightarrow> ustr" where
  "rstrip s = rev (dropWhile isspace (rev s))"

definition strip :: "ustr \<Rightarrow> ustr" where
  "strip s = rstrip (lstrip s)"

text \<open>\<open>s.replace(c, '')\<close> for a one-character \<open>c\<close>: every occurrence of \<open>c\<close> goes.\<close>

definition replace_del :: "nat \<Rightarrow> ustr \<Rightarrow> ustr" where
  "replace_del c s = filter (\<lambda>x. x \<noteq> c) s"

text \<open>\<open>s.split(newline)\<close>: always at least one piece; the empty string gives one empty piece.\<close>

fun split_nl :: "ustr \<Rightarrow> ustr list" where
  "split_nl [] = [[]]"
| "split_nl (c # cs) =
     (if c = NL then [] # split_nl cs
      else (case split_nl cs of [] \<Rightarrow> [[c]] | l # ls \<Rightarrow> (c # l) # ls))"

text \<open>\<open>newline.join(ls)\<close>.\<close>

fun join_nl :: "ustr list \<Rightarrow> ustr" where
  "join_nl [] = []"
| "join_nl [l] = l"
| "join_nl (l # m # ls) = l @ NL # join_nl (m # ls)"

section \<open>The regular expressions of the sanitizer\<close>

text \<open>The character class of the code points U+4E00 to U+9FFF.\<close>

definition is_chinese :: "nat \<Rightarrow> bool" where
  "is_chinese c = (0x4E00 \<le> c \<and> c \<le> 0x9FFF)"

text \<open>\<open>len(re.findall(class, s))\<close>: one match per character of the class.\<close>

definition count_chinese :: "ustr \<Rightarrow> nat" where
  "count_chinese s = length (filter is_chinese s)"

text \<open>\<open>re.sub(class+, '', s)\<close>: every run of characters of the class is deleted.\<close>

definition sub_chinese :: "ustr \<Rightarrow> ustr" where
  "sub_chinese s = filter (\<lambda>c. \<not> is_chinese c) s"

text \<open>
  The substitution of two newlines for the pattern "newline, then one or more
  newlines": scanning from the left, a maximal run of two or more newlines is replaced
  by exactly two; a single newline is left alone.
\<close>

function collapse_newlines :: "ustr \<Rightarrow> ustr" where
  "collapse_newlines [] = []"
| "collapse_newlines [c] = [c]"
| "collapse_newlines (c # d # cs) =
     (if c = NL \<and> d = NL then NL # NL # collapse_newlines (dropWhile (\<lambda>x. x = NL) cs)
      else c # collapse_newlines (d # cs))"
  by pat_completeness auto
termination
  by (relation "measure length")
    (auto intro: le_less_trans [OF length_dropWhile_le])

section \<open>Response sanitization (\<open>generate_response\<close>, after the engine call)\<close>

datatype py_exc =
    ZeroDivisionError
  | AttributeError
  | TypeError
  | KeyError
  | BadRequest
  | EngineError ustr

text \<open>
  \<open>a / b\<close> on two ints raises on a zero divisor. The quotient is kept exact: Python
  rounds it to the nearest double and compares with the double nearest to 0.3, which
  gives the same verdict as the exact comparison with 3/10 for every denominator below
  \<open>2^52\<close>, far beyond the length of any reply.
\<close>

definition truediv :: "nat \<Rightarrow> nat \<Rightarrow> py_exc + rat" where
  "truediv a b = (if b = 0 then Inl ZeroDivisionError else Inr (of_nat a / of_nat b))"

definition apology :: ustr where
  "apology = of_ascii ''I apologize, but I can only respond in English.''"

definition fallback :: ustr where
  "fallback = of_ascii ''I encountered an issue. Please try rephrasing your question.''"

text \<open>\<open>total_chars\<close>: the length after deleting every space and then every newline.\<close>

definition total_chars :: "ustr \<Rightarrow> nat" where
  "total_chars bot_reply = length (replace_del NL (replace_del SP bot_reply))"

text \<open>The \<open>else\<close> branch of the filter: strip the block, collapse blank lines, trim.\<close>

definition strip_and_clean :: "ustr \<Rightarrow> ustr" where
  "strip_and_clean bot_reply = strip (collapse_newlines (sub_chinese bot_reply))"

text \<open>
  The block under \<open># Filter Chinese\<close>. The conjunction short-circuits: the division is
  evaluated only when \<open>total_chars > 0\<close>.
\<close>

definition filter_chinese :: "ustr \<Rightarrow> py_exc + ustr" where
  "filter_chinese bot_reply =
     (if total_chars bot_reply > 0 then
        (case truediv (count_chinese bot_reply) (total_chars bot_reply) of
           Inl e \<Rightarrow> Inl e
         | Inr ratio \<Rightarrow>
             if ratio > 3 / 10 then Inr apology else Inr (strip_and_clean bot_reply))
      else Inr (strip_and_clean bot_reply))"

text \<open>\<open>unique_lines[-2:]\<close>: the last two elements, or all of them when there are fewer.\<close>

definition last2 :: "'a list \<Rightarrow> 'a list" where
  "last2 xs = drop (length xs - 2) xs"

text \<open>
  The loop under \<open># Remove repetition\<close>, with \<open>unique_lines\<close> as the accumulator: a line
  is appended when it is not blank and is not among the last two kept lines.
\<close>

fun remove_repetition :: "ustr list \<Rightarrow> ustr list \<Rightarrow> ustr list" where
  "remove_repetition unique_lines [] = unique_lines"
| "remove_repetition unique_lines (line # lines) =
     remove_repetition
       (if strip line \<noteq> [] \<and> (unique_lines = [] \<or> line \<notin> set (last2 unique_lines))
        then unique_lines @ [line] else unique_lines)
       lines"

definition dedup_reply :: "ustr \<Rightarrow> ustr" where
  "dedup_reply bot_reply = join_nl (remove_repetition [] (split_nl bot_reply))"

definition short_fallback :: "ustr \<Rightarrow> ustr" where
  "short_fallback bot_reply = (if length bot_reply < 10 then fallback else bot_reply)"

text \<open>
  Everything between the engine's return and \<open>return {"response": bot_reply}\<close>, applied
  to the completion text \<open>response["choices"][0]["text"]\<close>.
\<close>

definition sanitize :: "ustr \<Rightarrow> py_exc + ustr" where
  "sanitize text =
     (case filter_chinese (strip text) of
        Inl e \<Rightarrow> Inl e
      | Inr bot_reply \<Rightarrow> Inr (short_fallback (dedup_reply bot_reply)))"

section \<open>Request data\<close>

text \<open>
  The body of a request is whatever JSON the client sent; the handler does no type
  checks, so the model keeps the values untyped, as Python has them after parsing.
  An object is the list of its members, looked up by key. A number keeps its exact
  value; the code only ever asks whether it is zero.
\<close>

datatype json =
    JNull
  | JBool bool
  | JNum rat
  | JStr ustr
  | JArr "json list"
  | JObj "(ustr \<times> json) list"

text \<open>Truth value of a parsed JSON value, as \<open>if not message\<close> and \<open>and\<close> test it.\<close>

fun truthy :: "json \<Rightarrow> bool" where
  "truthy JNull = False"
| "truthy (JBool b) = b"
| "truthy (JNum n) = (n \<noteq> 0)"
| "truthy (JStr s) = (s \<noteq> [])"
| "truthy (JArr xs) = (xs \<noteq> [])"
| "truthy (JObj kvs) = (kvs \<noteq> [])"

text \<open>\<open>d.get(key, default)\<close>: only a dict has the method.\<close>

fun dict_get :: "json \<Rightarrow> ustr \<Rightarrow> json \<Rightarrow> py_exc + json" where
  "dict_get (JObj kvs) key dflt =
     Inr (case map_of kvs key of None \<Rightarrow> dflt | Some v \<Rightarrow> v)"
| "dict_get _ key dflt = Inl AttributeError"

text \<open>
  \<open>turn[key]\<close> with a string key: a dict without the key raises KeyError, a list or a
  string refuses a string index, and nothing else can be subscripted.
\<close>

fun getitem :: "json \<Rightarrow> ustr \<Rightarrow> py_exc + json" where
  "getitem (JObj kvs) key =
     (case map_of kvs key of None \<Rightarrow> Inl KeyError | Some v \<Rightarrow> Inr v)"
| "getitem _ key = Inl TypeError"

text \<open>
  \<open>history[-5:]\<close>, as the sequence the loop then iterates: the last five elements of a
  list, the last five characters of a string (each a one-character string); a slice
  of anything else raises.
\<close>

fun last5 :: "json \<Rightarrow> py_exc + json list" where
  "last5 (JArr xs) = Inr (drop (length xs - 5) xs)"
| "last5 (JStr s) = Inr (map (\<lambda>c. JStr [c]) (drop (length s - 5) s))"
| "last5 _ = Inl TypeError"

text \<open>A list or a dict cannot be a dictionary key: looking one up raises TypeError.\<close>

fun hashable :: "json \<Rightarrow> bool" where
  "hashable (JArr xs) = False"
| "hashable (JObj kvs) = False"
| "hashable _ = True"

section \<open>Context assembly and token budget (\<open>generate_response\<close>, before the engine call)\<close>

definition SYSTEM_PROMPT :: ustr where
  "SYSTEM_PROMPT =
     of_ascii ''You are R3KON GPT, a professional cybersecurity assistant.'' @ [NL] @
     of_ascii ''CRITICAL RULES:'' @ [NL] @
     of_ascii ''1. ALWAYS respond in English only. Never use Chinese or any other language.'' @ [NL] @
     of_ascii ''2. Stay strictly on topic related to cybersecurity, programming, or the user's question.'' @ [NL] @
     of_ascii ''3. Keep responses clear, concise, and professional.'' @ [NL] @
     of_ascii ''4. Use structured formatting: bullet points, numbered lists, or paragraphs as appropriate.'' @ [NL] @
     of_ascii ''5. Never repeat yourself or generate repetitive content.'' @ [NL] @
     of_ascii ''6. If asked something off-topic, politely redirect to cybersecurity topics.'' @ [NL]"

text \<open>
  An f-string field \<open>{v}\<close> inserts \<open>str(v)\<close>: a string as it is, any other value as
  the interpreter prints it. That printing is the interpreter's, not this program's,
  and is a parameter \<open>py_str\<close> of the model.
\<close>

definition fmt :: "(json \<Rightarrow> ustr) \<Rightarrow> json \<Rightarrow> ustr" where
  "fmt py_str v = (case v of JStr s \<Rightarrow> s | _ \<Rightarrow> py_str v)"

text \<open>
  The body of \<open>for turn in history[-5:]\<close>: two lines per turn, the user's and then the
  assistant's; the first subscript that fails ends the loop with its exception.
\<close>

fun render_turns :: "(json \<Rightarrow> ustr) \<Rightarrow> json list \<Rightarrow> py_exc + ustr list" where
  "render_turns py_str [] = Inr []"
| "render_turns py_str (turn # turns) =
     (case getitem turn (of_ascii ''user'') of
        Inl e \<Rightarrow> Inl e
      | Inr u \<Rightarrow>
          (case getitem turn (of_ascii ''assistant'') of
             Inl e \<Rightarrow> Inl e
           | Inr a \<Rightarrow>
               (case render_turns py_str turns of
                  Inl e \<Rightarrow> Inl e
                | Inr rest \<Rightarrow>
                    Inr ((of_ascii ''User: '' @ fmt py_str u)
                         # (of_ascii ''Assistant: '' @ fmt py_str a) # rest))))"

text \<open>The list \<open>context_parts\<close> as it stands when it is joined.\<close>

definition context_parts :: "(json \<Rightarrow> ustr) \<Rightarrow> json \<Rightarrow> json \<Rightarrow> json \<Rightarrow> py_exc + ustr list" where
  "context_parts py_str prompt config history =
     (case dict_get config (of_ascii ''sessionMemory'') JNull of
        Inl e \<Rightarrow> Inl e
      | Inr session_memory \<Rightarrow>
          (case (if truthy session_memory \<and> truthy history then
                   (case last5 history of
                      Inl e \<Rightarrow> Inl e
                    | Inr turns \<Rightarrow>
                        (case render_turns py_str turns of
                           Inl e \<Rightarrow> Inl e
                         | Inr ls \<Rightarrow>
                             Inr ((NL # of_ascii ''--- Recent Conversation ---'') # ls)))
                 else Inr []) of
             Inl e \<Rightarrow> Inl e
           | Inr transcript \<Rightarrow>
               Inr ([SYSTEM_PROMPT] @ transcript @
                    [NL # of_ascii ''User: '' @ fmt py_str prompt, of_ascii ''Assistant:''])))"

definition token_limits :: "(ustr \<times> nat) list" where
  "token_limits =
     [(of_ascii ''short'', 300), (of_ascii ''medium'', 600), (of_ascii ''long'', 1000)]"

text \<open>
  \<open>token_limits.get(config.get('responseLength', 'medium'), 600)\<close>: the keys of
  \<open>token_limits\<close> are strings, so only a string can be found there.
\<close>

definition max_tokens :: "json \<Rightarrow> py_exc + nat" where
  "max_tokens config =
     (case dict_get config (of_ascii ''responseLength'') (JStr (of_ascii ''medium'')) of
        Inl e \<Rightarrow> Inl e
      | Inr key \<Rightarrow>
          if \<not> hashable key then Inl TypeError
          else Inr (case key of
                      JStr s \<Rightarrow> (case map_of token_limits s of None \<Rightarrow> 600 | Some n \<Rightarrow> n)
                    | _ \<Rightarrow> 600))"

section \<open>The engine and the two entry points\<close>

text \<open>
  The engine is opaque: called with the prompt and the token budget (the other
  arguments are constants), it either raises or returns a completion whose text is
  \<open>response["choices"][0]["text"]\<close>. The environment of a request is the loaded flag,
  the engine and the interpreter's \<open>str\<close>.
\<close>

record env =
  model_loaded :: bool
  llm :: "ustr \<Rightarrow> nat \<Rightarrow> py_exc + ustr"
  py_str :: "json \<Rightarrow> ustr"

text \<open>
  The \<open>error\<close> field of a reply is a fixed message or \<open>str(e)\<close> of a caught exception.
\<close>

datatype error_text = Message ustr | Str py_exc

datatype payload = Response ustr | Error error_text

text \<open>
  \<open>generate_response\<close> returns its dict, or lets an exception escape (everything
  before the \<open>try\<close> is unprotected); the second component lists the calls made into the
  engine, each with its prompt and token budget.
\<close>

definition generate_response ::
  "env \<Rightarrow> json \<Rightarrow> json \<Rightarrow> json \<Rightarrow> (py_exc + payload) \<times> (ustr \<times> nat) list" where
  "generate_response ev prompt config history =
     (if \<not> model_loaded ev then (Inr (Error (Message (of_ascii ''Model not loaded''))), [])
      else
        (case context_parts (py_str ev) prompt config history of
           Inl e \<Rightarrow> (Inl e, [])
         | Inr parts \<Rightarrow>
             (case max_tokens config of
                Inl e \<Rightarrow> (Inl e, [])
              | Inr budget \<Rightarrow>
                  ((case llm ev (join_nl parts) budget of
                      Inl e \<Rightarrow> Inr (Error (Str e))
                    | Inr text \<Rightarrow>
                        (case sanitize text of
                           Inl e \<Rightarrow> Inr (Error (Str e))
                         | Inr bot_reply \<Rightarrow> Inr (Response bot_reply))),
                   [(join_nl parts, budget)]))))"

record http_response =
  status :: nat
  body :: payload

text \<open>
  The handler of \<open>POST /api/chat\<close>. The request is the outcome of \<open>request.json\<close>: the
  parsed body, or the exception raised for a body that is not JSON. \<open>jsonify(result)\<close>
  with no status is a 200.
\<close>

definition chat :: "env \<Rightarrow> py_exc + json \<Rightarrow> http_response \<times> (ustr \<times> nat) list" where
  "chat ev request =
     (if \<not> model_loaded ev then
        (\<lparr>status = 500, body = Error (Message (of_ascii ''Model not loaded''))\<rparr>, [])
      else
        (case request of
           Inl e \<Rightarrow> (\<lparr>status = 500, body = Error (Str e)\<rparr>, [])
         | Inr data \<Rightarrow>
             (case dict_get data (of_ascii ''message'') (JStr []) of
                Inl e \<Rightarrow> (\<lparr>status = 500, body = Error (Str e)\<rparr>, [])
              | Inr message \<Rightarrow>
                  (case dict_get data (of_ascii ''config'') (JObj []) of
                     Inl e \<Rightarrow> (\<lparr>status = 500, body = Error (Str e)\<rparr>, [])
                   | Inr config \<Rightarrow>
                       (case dict_get data (of_ascii ''history'') (JArr []) of
                          Inl e \<Rightarrow> (\<lparr>status = 500, body = Error (Str e)\<rparr>, [])
                        | Inr history \<Rightarrow>
                            if \<not> truthy message then
                              (\<lparr>status = 400, body = Error (Message (of_ascii ''No message''))\<rparr>, [])
                            else
                              (case generate_response ev message config history of
                                 (Inl e, calls) \<Rightarrow>
                                   (\<lparr>status = 500, body = Error (Str e)\<rparr>, calls)
                               | (Inr result, calls) \<Rightarrow>
                                   (\<lparr>status = 200, body = result\<rparr>, calls)))))))"

section \<open>Notions of the specification\<close>

text \<open>
  The specification measures the reply with notions of its own. They are written down
  here from its words, to be compared with what the code computes.
\<close>

text \<open>
  The foreign-script ratio as the specification words it: characters of the block over
  the characters that are not whitespace.
\<close>

definition foreign_ratio_stated :: "ustr \<Rightarrow> rat" where
  "foreign_ratio_stated b =
     of_nat (count_chinese b) / of_nat (length (filter (\<lambda>c. \<not> isspace c) b))"

text \<open>
  The ratio over the characters other than the space and the newline: a tab, a carriage
  return or a no-break space counts in the denominator.
\<close>

definition foreign_ratio :: "ustr \<Rightarrow> rat" where
  "foreign_ratio b =
     of_nat (count_chinese b) / of_nat (length (filter (\<lambda>c. c \<noteq> SP \<and> c \<noteq> NL) b))"

text \<open>Latin script: Basic Latin up to Latin Extended-B, controls and spaces included.\<close>

definition latin_script :: "ustr \<Rightarrow> bool" where
  "latin_script x = list_all (\<lambda>c. c < 0x250) x"

text \<open>No line equals one of the two lines before it.\<close>

fun no_repeated_lines :: "ustr list \<Rightarrow> bool" where
  "no_repeated_lines (a # b # c # ls) = (a \<noteq> b \<and> a \<noteq> c \<and> no_repeated_lines (b # c # ls))"
| "no_repeated_lines [a, b] = (a \<noteq> b)"
| "no_repeated_lines ls = True"

text \<open>
  A turn of the history as the client sends it, a pair of strings under the keys
  \<open>user\<close> and \<open>assistant\<close>, and the two labelled lines it is rendered as.
\<close>

definition turn_json :: "ustr \<times> ustr \<Rightarrow> json" where
  "turn_json t =
     JObj [(of_ascii ''user'', JStr (fst t)), (of_ascii ''assistant'', JStr (snd t))]"

definition turn_lines :: "ustr \<times> ustr \<Rightarrow> ustr list" where
  "turn_lines t = [of_ascii ''User: '' @ fst t, of_ascii ''Assistant: '' @ snd t]"

section \<open>Evaluation\<close>

lemmas eval_defs = of_ascii_def strip_def lstrip_def rstrip_def isspace_def py_whitespace_def
  total_chars_def count_chinese_def is_chinese_def replace_del_def sub_chinese_def
  strip_and_clean_def dedup_reply_def short_fallback_def last2_def apology_def fallback_def
  sanitize_def filter_chinese_def truediv_def foreign_ratio_stated_def foreign_ratio_def
  latin_script_def

lemmas chat_defs = chat_def generate_response_def context_parts_def max_tokens_def
  token_limits_def fmt_def of_ascii_def

section \<open>The sanitizer keeps to the characters of its input\<close>

lemma filter_chinese_Inr:
  "filter_chinese b = Inr (if total_chars b > 0 \<and> (of_nat (count_chinese b) / of_nat (total_chars b) :: rat) > 3 / 10 then apology else strip_and_clean b)"
  by (simp add: filter_chinese_def truediv_def)

lemma set_strip: "set (strip s) \<subseteq> set s"
  unfolding strip_def lstrip_def rstrip_def
  by (metis set_dropWhileD set_rev subsetI)

lemma set_collapse_newlines: "set (collapse_newlines s) \<subseteq> set s"
proof (induction s rule: collapse_newlines.induct)
  case (3 c d cs)
  then show ?case by (auto dest: set_dropWhileD)
qed simp_all

lemma split_nl_not_Nil: "split_nl s \<noteq> []"
  by (induction s) (auto split: list.splits)

lemma set_split_nl: "\<Union> (set ` set (split_nl s)) \<subseteq> set s"
proof (induction s)
  case Nil then show ?case by simp
next
  case (Cons c cs)
  obtain l ls where sp: "split_nl cs = l # ls"
    using split_nl_not_Nil [of cs] by (cases "split_nl cs") auto
  with Cons show ?case by auto
qed

lemma set_remove_repetition: "set (remove_repetition acc ls) \<subseteq> set acc \<union> set ls"
proof (induction ls arbitrary: acc)
  case Nil then show ?case by simp
next
  case (Cons l ls)
  have "set (remove_repetition (acc @ [l]) ls) \<subseteq> set (acc @ [l]) \<union> set ls"
    and "set (remove_repetition acc ls) \<subseteq> set acc \<union> set ls"
    by (rule Cons.IH)+
  then show ?case by auto
qed

lemma set_join_nl: "set (join_nl ls) \<subseteq> insert NL (\<Union> (set ` set ls))"
  by (induction ls rule: join_nl.induct) auto

lemma apology_ok: "10 \<le> length apology" "c \<in> set apology \<Longrightarrow> \<not> is_chinese c"
  by (auto simp add: apology_def of_ascii_def is_chinese_def)

lemma fallback_ok: "10 \<le> length fallback" "c \<in> set fallback \<Longrightarrow> \<not> is_chinese c"
  by (auto simp add: fallback_def of_ascii_def is_chinese_def)

lemma NL_not_chinese: "\<not> is_chinese NL"
  by (simp add: is_chinese_def)

lemma set_dedup_reply: "set (dedup_reply b) \<subseteq> insert NL (set b)"
proof -
  have "set (dedup_reply b) \<subseteq> insert NL (\<Union> (set ` set (remove_repetition [] (split_nl b))))"
    unfolding dedup_reply_def by (rule set_join_nl)
  also have "\<dots> \<subseteq> insert NL (\<Union> (set ` set (split_nl b)))"
    using set_remove_repetition [of "[]" "split_nl b"] by auto
  also have "\<dots> \<subseteq> insert NL (set b)"
    using set_split_nl [of b] by auto
  finally show ?thesis .
qed

lemma strip_and_clean_no_chinese: "c \<in> set (strip_and_clean b) \<Longrightarrow> \<not> is_chinese c"
proof -
  assume "c \<in> set (strip_and_clean b)"
  then have "c \<in> set (sub_chinese b)"
    unfolding strip_and_clean_def
    using set_strip set_collapse_newlines by blast
  then show ?thesis by (simp add: sub_chinese_def)
qed

lemma filter_chinese_no_chinese:
  assumes "filter_chinese b = Inr r" and "c \<in> set r"
  shows "\<not> is_chinese c"
  using assms apology_ok(2) strip_and_clean_no_chinese
  by (auto simp: filter_chinese_Inr split: if_splits)

lemma short_fallback_ok:
  assumes "\<And>c. c \<in> set r \<Longrightarrow> \<not> is_chinese c"
  shows "10 \<le> length (short_fallback r) \<and> (\<forall>c\<in>set (short_fallback r). \<not> is_chinese c)"
  using assms fallback_ok by (auto simp: short_fallback_def)


lemma total_chars_filter: "total_chars b = length (filter (\<lambda>c. c \<noteq> SP \<and> c \<noteq> NL) b)"
  by (simp add: total_chars_def replace_del_def conj_commute)

lemma dedup_reply_apology: "dedup_reply apology = apology"
  by (simp add: eval_defs)

lemma short_fallback_apology: "short_fallback apology = apology"
  by (simp add: eval_defs)

section \<open>Splitting, joining and the repetition loop on clean text\<close>

lemma join_nl_Cons: "join_nl ((c # l) # ls) = c # join_nl (l # ls)"
  by (cases ls) simp_all

lemma join_nl_Nil_Cons: "ls \<noteq> [] \<Longrightarrow> join_nl ([] # ls) = NL # join_nl ls"
  by (cases ls) simp_all

lemma join_split_nl: "join_nl (split_nl x) = x"
proof (induction x)
  case Nil then show ?case by simp
next
  case (Cons c cs)
  obtain l ls where sp: "split_nl cs = l # ls"
    using split_nl_not_Nil [of cs] by (cases "split_nl cs") auto
  show ?case
  proof (cases "c = NL")
    case True
    then show ?thesis using Cons sp by (simp add: join_nl_Nil_Cons)
  next
    case False
    then show ?thesis using Cons sp by (simp add: join_nl_Cons)
  qed
qed

lemma collapse_newlines_id:
  "[] \<notin> set (tl (split_nl x)) \<Longrightarrow> collapse_newlines x = x"
proof (induction x rule: collapse_newlines.induct)
  case 1 then show ?case by simp
next
  case (2 c) then show ?case by simp
next
  case (3 c d cs)
  obtain l ls where sp: "split_nl (d # cs) = l # ls"
    using split_nl_not_Nil [of "d # cs"] by (cases "split_nl (d # cs)") auto
  show ?case
  proof (cases "c = NL")
    case True
    with "3.prems" have no: "[] \<notin> set (split_nl (d # cs))" by simp
    then have "d \<noteq> NL" by auto
    moreover from no sp have "[] \<notin> set (tl (split_nl (d # cs)))" by auto
    ultimately show ?thesis using "3.IH"(2) True by simp
  next
    case False
    with "3.prems" sp have "[] \<notin> set (tl (split_nl (d # cs)))" by simp
    then show ?thesis using "3.IH"(2) False by simp
  qed
qed

lemma last2_cases:
  obtains "acc = []" "last2 acc = []"
  | a where "acc = [a]" "last2 acc = [a]"
  | pre a b where "acc = pre @ [a, b]" "last2 acc = [a, b]"
proof (cases acc rule: rev_cases)
  case Nil then show ?thesis using that(1) by (simp add: last2_def)
next
  case (snoc ys b)
  show ?thesis
  proof (cases ys rule: rev_cases)
    case Nil then show ?thesis using that(2) snoc by (simp add: last2_def)
  next
    case (snoc pre a)
    with \<open>acc = ys @ [b]\<close> show ?thesis using that(3) [of pre a b] by (simp add: last2_def)
  qed
qed

lemma last2_snoc: "last2 (pre @ [a, b]) = [a, b]"
  by (simp add: last2_def)

lemma no_repeated_lines_hd: "no_repeated_lines (a # b # ls) \<Longrightarrow> a \<noteq> b"
  by (cases ls) simp_all

lemma no_repeated_lines_tl: "no_repeated_lines (a # ls) \<Longrightarrow> no_repeated_lines ls"
  by (cases "(a # ls)" rule: no_repeated_lines.cases) simp_all

lemma remove_repetition_keeps_all:
  "\<forall>l\<in>set ls. strip l \<noteq> [] \<Longrightarrow> no_repeated_lines (last2 acc @ ls) \<Longrightarrow>
     remove_repetition acc ls = acc @ ls"
proof (induction ls arbitrary: acc)
  case Nil then show ?case by simp
next
  case (Cons l ls)
  have keep: "l \<notin> set (last2 acc)" and nxt: "no_repeated_lines (last2 (acc @ [l]) @ ls)"
  proof -
    show "l \<notin> set (last2 acc)"
    proof (cases acc rule: last2_cases)
      case 1 then show ?thesis by simp
    next
      case (2 a)
      with Cons.prems(2) show ?thesis by (auto dest: no_repeated_lines_hd)
    next
      case (3 pre a b)
      with Cons.prems(2) have "a \<noteq> l" "b \<noteq> l"
        by (auto dest: no_repeated_lines_hd no_repeated_lines_tl)
      with 3 show ?thesis by auto
    qed
    show "no_repeated_lines (last2 (acc @ [l]) @ ls)"
    proof (cases acc rule: last2_cases)
      case 1 with Cons.prems(2) show ?thesis by (simp add: last2_def)
    next
      case (2 a)
      with Cons.prems(2) show ?thesis by (simp add: last2_def)
    next
      case (3 pre a b)
      have "last2 (acc @ [l]) = [b, l]"
        using 3(1) last2_snoc [of "pre @ [a]" b l] by simp
      with 3 Cons.prems(2) show ?thesis
        by (auto dest: no_repeated_lines_tl)
    qed
  qed
  have "remove_repetition acc (l # ls) = remove_repetition (acc @ [l]) ls"
    using keep Cons.prems(1) by simp
  also have "\<dots> = (acc @ [l]) @ ls"
    using Cons.prems(1) nxt by (intro Cons.IH) auto
  finally show ?case by simp
qed


section \<open>Rendering well-formed turns, and the token table\<close>

lemma render_turns_turn_json:
  "render_turns f (map turn_json ts) = Inr (concat (map turn_lines ts))"
  by (induction ts) (simp_all add: turn_json_def turn_lines_def of_ascii_def fmt_def)

lemma max_tokens_table:
  "max_tokens (JObj [(of_ascii ''responseLength'', JStr (of_ascii ''short''))]) = Inr 300"
  "max_tokens (JObj [(of_ascii ''responseLength'', JStr (of_ascii ''medium''))]) = Inr 600"
  "max_tokens (JObj [(of_ascii ''responseLength'', JStr (of_ascii ''long''))]) = Inr 1000"
  "max_tokens (JObj []) = Inr 600"
  by (simp_all add: max_tokens_def token_limits_def of_ascii_def)

lemma max_tokens_hashable:
  assumes "map_of cfg (of_ascii ''responseLength'') = Some v" "hashable v"
  shows "max_tokens (JObj cfg) =
     Inr (if v = JStr (of_ascii ''short'') then 300
          else if v = JStr (of_ascii ''long'') then 1000 else 600)"
  using assms
  by (cases v) (auto simp: max_tokens_def token_limits_def of_ascii_def)

section \<open>Repetition suppression\<close>

text \<open>
  C1 (as stated). The claim expects the lines A, A, B, A to come out as A, B, A. The
  loop keeps A, B: when the last A is read the two kept lines before it are A and B,
  and A is one of them.
\<close>

theorem remove_repetition_AABA_counterexample:
  "remove_repetition [] [of_ascii ''A'', of_ascii ''A'', of_ascii ''B'', of_ascii ''A'']
     \<noteq> [of_ascii ''A'', of_ascii ''B'', of_ascii ''A'']"
  by (simp add: eval_defs)

text \<open>
  C1 (amended). The lines A, A, B, A come out as A, B; the window is the last two kept
  lines and not a global set, since the lines A, B, C, A are all kept.
\<close>

theorem remove_repetition_AABA:
  "remove_repetition [] [of_ascii ''A'', of_ascii ''A'', of_ascii ''B'', of_ascii ''A'']
     = [of_ascii ''A'', of_ascii ''B'']
   \<and> remove_repetition [] [of_ascii ''A'', of_ascii ''B'', of_ascii ''C'', of_ascii ''A'']
     = [of_ascii ''A'', of_ascii ''B'', of_ascii ''C'', of_ascii ''A'']"
  by (simp add: eval_defs)

section \<open>Status of an engine failure\<close>

text \<open>
  C2 (the code at a failing input). The model is loaded, the message is "hi" and the
  engine raises with the text "boom". \<open>generate_response\<close> catches the exception and
  returns a dict with the error text; the handler passes that dict to \<open>jsonify\<close> with
  no status, so the reply is a 200 whose body has the error field, where the claim
  asks for a 500. The engine was called once, with the prompt and the default budget.
\<close>

theorem chat_engine_raises:
  "chat \<lparr>model_loaded = True, llm = (\<lambda>p n. Inl (EngineError (of_ascii ''boom''))), py_str = (\<lambda>v. [])\<rparr>
        (Inr (JObj [(of_ascii ''message'', JStr (of_ascii ''hi''))]))
     = (\<lparr>status = 200, body = Error (Str (EngineError (of_ascii ''boom'')))\<rparr>,
        [(join_nl [SYSTEM_PROMPT, NL # of_ascii ''User: hi'', of_ascii ''Assistant:''], 600)])"
  by (simp add: max_tokens_def chat_def generate_response_def context_parts_def of_ascii_def
      token_limits_def fmt_def)

section \<open>The empty message\<close>

text \<open>
  C3 (as stated). With the model not loaded, a request whose message is the empty
  string is answered 500, not 400: the handler tests the loaded flag before it reads
  the body.
\<close>

theorem chat_empty_message_not_loaded_counterexample:
  "status (fst (chat \<lparr>model_loaded = False, llm = (\<lambda>p n. Inr []), py_str = (\<lambda>v. [])\<rparr>
        (Inr (JObj [(of_ascii ''message'', JStr [])])))) \<noteq> 400"
  by (simp add: chat_def)

text \<open>
  C3 (amended). For every request whose body is an object with message equal to the
  empty string, whatever the other members of the body are: with the model loaded
  the answer is 400 with the fixed text "No message"; with the model not loaded it
  is 500 with the fixed text "Model not loaded". In both cases the engine is not
  called.
\<close>

theorem chat_empty_message:
  assumes "map_of kvs (of_ascii ''message'') = Some (JStr [])"
  shows "chat ev (Inr (JObj kvs)) =
     (if model_loaded ev
      then \<lparr>status = 400, body = Error (Message (of_ascii ''No message''))\<rparr>
      else \<lparr>status = 500, body = Error (Message (of_ascii ''Model not loaded''))\<rparr>,
      [])"
  using assms by (simp add: chat_def)

text \<open>
  C3, at a concrete request, an empty message and a config that is a number: once
  with the model loaded, once with the model not loaded.
\<close>

theorem chat_empty_message_witness:
  "chat \<lparr>model_loaded = True, llm = (\<lambda>p n. Inr []), py_str = (\<lambda>v. [])\<rparr>
        (Inr (JObj [(of_ascii ''message'', JStr []), (of_ascii ''config'', JNum 5)]))
     = (\<lparr>status = 400, body = Error (Message (of_ascii ''No message''))\<rparr>, [])
   \<and> chat \<lparr>model_loaded = False, llm = (\<lambda>p n. Inr []), py_str = (\<lambda>v. [])\<rparr>
        (Inr (JObj [(of_ascii ''message'', JStr []), (of_ascii ''config'', JNum 5)]))
     = (\<lparr>status = 500, body = Error (Message (of_ascii ''Model not loaded''))\<rparr>, [])"
  using chat_empty_message
    [of "[(of_ascii ''message'', JStr []), (of_ascii ''config'', JNum 5)]"
        "\<lparr>model_loaded = True, llm = (\<lambda>p n. Inr []), py_str = (\<lambda>v. [])\<rparr>"]
    chat_empty_message
    [of "[(of_ascii ''message'', JStr []), (of_ascii ''config'', JNum 5)]"
        "\<lparr>model_loaded = False, llm = (\<lambda>p n. Inr []), py_str = (\<lambda>v. [])\<rparr>"]
  by (simp add: of_ascii_def)

section \<open>The foreign-script threshold\<close>

text \<open>
  C4 (as stated). The reply made of one character of the block, a tab and the letters
  a, b is already trimmed; one of its three non-whitespace characters is in the
  block, a ratio above 0.3, and yet the reply is not replaced by the apology: the
  code deletes spaces and newlines only before it counts, so the tab is counted and
  the ratio it computes is one in four.
\<close>

theorem foreign_ratio_tab_counterexample:
  "3 / 10 < foreign_ratio_stated (strip [0x4E2D, 9, 97, 98])
   \<and> filter_chinese (strip [0x4E2D, 9, 97, 98]) \<noteq> Inr apology"
  by (simp add: eval_defs)

text \<open>
  C4 (amended). The ratio is the number of characters of the block U+4E00 to U+9FFF
  over the number of characters of the trimmed reply other than the space and the
  newline. The reply is replaced by the apology exactly when that ratio is strictly
  above 0.3; otherwise, also at exactly 0.3 and for a reply with no such character at
  all, the strip-and-clean branch runs. The second equation is the same choice seen
  in the final result.
\<close>

theorem filter_chinese_threshold:
  "filter_chinese (strip text) =
     Inr (if 3 / 10 < foreign_ratio (strip text) then apology
          else strip_and_clean (strip text))
   \<and> sanitize text =
     Inr (if 3 / 10 < foreign_ratio (strip text) then apology
          else short_fallback (dedup_reply (strip_and_clean (strip text))))"
proof -
  let ?b = "strip text"
  have "(0 < total_chars ?b \<and> (of_nat (count_chinese ?b) / of_nat (total_chars ?b) :: rat) > 3 / 10)
          = (3 / 10 < foreign_ratio ?b)"
    by (auto simp: foreign_ratio_def total_chars_filter)
  then have fc: "filter_chinese ?b =
      Inr (if 3 / 10 < foreign_ratio ?b then apology else strip_and_clean ?b)"
    by (simp add: filter_chinese_Inr)
  then show ?thesis
    by (simp add: sanitize_def dedup_reply_apology short_fallback_apology)
qed

text \<open>
  C4, at the boundary: three of ten characters in the block is exactly 0.3 and the
  reply is cleaned; four of thirteen is above and the reply is the apology.
\<close>

theorem filter_chinese_threshold_witness:
  "foreign_ratio (strip [0x4E2D, 0x4E2D, 0x4E2D, 97, 97, 97, 97, 97, 97, 97]) = 3 / 10
   \<and> filter_chinese (strip [0x4E2D, 0x4E2D, 0x4E2D, 97, 97, 97, 97, 97, 97, 97])
       = Inr [97, 97, 97, 97, 97, 97, 97]
   \<and> filter_chinese (strip [0x4E2D, 0x4E2D, 0x4E2D, 0x4E2D, 97, 97, 97, 97, 97, 97, 97, 97, 97])
       = Inr apology"
  using filter_chinese_threshold [of "[0x4E2D, 0x4E2D, 0x4E2D, 97, 97, 97, 97, 97, 97, 97]"]
    filter_chinese_threshold [of "[0x4E2D, 0x4E2D, 0x4E2D, 0x4E2D, 97, 97, 97, 97, 97, 97, 97, 97, 97]"]
  by (simp add: eval_defs)

section \<open>Totality and the shape of the result\<close>

text \<open>
  C5. For every input string the filter returns without raising (the division is
  reached only with a positive denominator), sanitization returns a string, that
  string is not empty, and it is the fallback whenever the cleaned and deduplicated
  reply is shorter than 10 characters.
\<close>

theorem sanitize_total:
  "\<exists>b r. filter_chinese (strip text) = Inr b \<and> sanitize text = Inr r \<and> r \<noteq> [] \<and>
     r = (if length (dedup_reply b) < 10 then fallback else dedup_reply b)"
proof -
  obtain b where b: "filter_chinese (strip text) = Inr b"
    by (simp add: filter_chinese_Inr)
  let ?r = "short_fallback (dedup_reply b)"
  have "sanitize text = Inr ?r" by (simp add: sanitize_def b)
  moreover have "?r \<noteq> []"
    using fallback_ok(1) by (auto simp: short_fallback_def)
  moreover have "?r = (if length (dedup_reply b) < 10 then fallback else dedup_reply b)"
    by (simp add: short_fallback_def)
  ultimately show ?thesis using b by blast
qed

text \<open>
  C5, on the empty string, on whitespace only and on text of the block only: the
  first two give the fallback, the third the apology.
\<close>

theorem sanitize_total_witness:
  "sanitize [] = Inr fallback \<and> sanitize [SP, NL, 9] = Inr fallback
   \<and> sanitize [0x4E2D, 0x6587] = Inr apology \<and> fallback \<noteq> [] \<and> apology \<noteq> []"
  using sanitize_total [of "[]"] sanitize_total [of "[SP, NL, 9]"]
    sanitize_total [of "[0x4E2D, 0x6587]"]
  by (simp add: eval_defs)

text \<open>
  C6. For every raw completion, the sanitized reply has at least 10 characters and
  none of them is in the block U+4E00 to U+9FFF, whichever branch produced it.
\<close>

theorem sanitize_reply_ok:
  "\<exists>r. sanitize text = Inr r \<and> 10 \<le> length r \<and> (\<forall>c\<in>set r. \<not> is_chinese c)"
proof -
  obtain b where b: "filter_chinese (strip text) = Inr b"
    by (simp add: filter_chinese_Inr)
  have "\<not> is_chinese c" if "c \<in> set (dedup_reply b)" for c
  proof -
    from that set_dedup_reply have "c = NL \<or> c \<in> set b" by blast
    then show ?thesis
      using NL_not_chinese filter_chinese_no_chinese [OF b] by blast
  qed
  then have "10 \<le> length (short_fallback (dedup_reply b)) \<and>
      (\<forall>c\<in>set (short_fallback (dedup_reply b)). \<not> is_chinese c)"
    by (rule short_fallback_ok)
  moreover have "sanitize text = Inr (short_fallback (dedup_reply b))"
    by (simp add: sanitize_def b)
  ultimately show ?thesis by blast
qed

text \<open>
  C6, on a completion that mixes both scripts: the block is stripped and the result,
  too short, becomes the fallback of 60 characters.
\<close>

theorem sanitize_reply_ok_witness:
  "sanitize [72, 105, 0x4E2D, 33, 33, 33, 33, 33, 33] = Inr fallback
   \<and> length fallback = 60 \<and> filter is_chinese fallback = []"
  using sanitize_reply_ok [of "[72, 105, 0x4E2D, 33, 33, 33, 33, 33, 33]"]
  by (simp add: eval_defs)

section \<open>Clean text is a fixed point\<close>

text \<open>
  C7 (as stated). Two paragraphs separated by a blank line are latin script, repeat no
  line and are longer than 10 characters, and sanitization changes them: the blank
  line is dropped.
\<close>

theorem sanitize_blank_line_counterexample:
  "latin_script (of_ascii ''Hello there.'' @ [NL, NL] @ of_ascii ''General text.'')
   \<and> no_repeated_lines (split_nl (of_ascii ''Hello there.'' @ [NL, NL] @ of_ascii ''General text.''))
   \<and> 10 \<le> length (of_ascii ''Hello there.'' @ [NL, NL] @ of_ascii ''General text.'')
   \<and> sanitize (of_ascii ''Hello there.'' @ [NL, NL] @ of_ascii ''General text.'')
       = Inr (of_ascii ''Hello there.'' @ [NL] @ of_ascii ''General text.'')
   \<and> sanitize (of_ascii ''Hello there.'' @ [NL, NL] @ of_ascii ''General text.'')
       \<noteq> Inr (of_ascii ''Hello there.'' @ [NL, NL] @ of_ascii ''General text.'')"
  by (simp add: eval_defs)

text \<open>
  C7 (amended). For every string with no character of the block U+4E00 to U+9FFF, no
  whitespace at either end, no blank line (empty or whitespace only), no line equal
  to one of the two lines before it, and at least 10 characters, sanitization
  returns the string unchanged, and so does sanitizing the result again.
\<close>

theorem sanitize_clean_fixpoint:
  assumes trimmed: "strip x = x"
    and latin: "\<forall>c\<in>set x. \<not> is_chinese c"
    and noblank: "\<forall>l\<in>set (split_nl x). strip l \<noteq> []"
    and norep: "no_repeated_lines (split_nl x)"
    and long: "10 \<le> length x"
  shows "sanitize x = Inr x \<and> (case sanitize x of Inl e \<Rightarrow> Inl e | Inr y \<Rightarrow> sanitize y) = Inr x"
proof -
  have cnt: "count_chinese x = 0"
    using latin by (simp add: count_chinese_def)
  have sub: "sub_chinese x = x"
    using latin by (simp add: sub_chinese_def)
  have "[] \<notin> set (split_nl x)"
    using noblank by (auto simp: strip_def lstrip_def rstrip_def)
  then have "[] \<notin> set (tl (split_nl x))"
    by (metis list.set_sel(2) split_nl_not_Nil)
  then have col: "collapse_newlines x = x" by (rule collapse_newlines_id)
  have clean: "strip_and_clean x = x"
    by (simp add: strip_and_clean_def sub col trimmed)
  have fc: "filter_chinese x = Inr x"
    by (simp add: filter_chinese_Inr cnt clean)
  have "remove_repetition [] (split_nl x) = [] @ split_nl x"
    using noblank norep by (intro remove_repetition_keeps_all) (simp_all add: last2_def)
  then have dd: "dedup_reply x = x"
    by (simp add: dedup_reply_def join_split_nl)
  have "sanitize x = Inr x"
    using long by (simp add: sanitize_def trimmed fc dd short_fallback_def)
  then show ?thesis by simp
qed

text \<open>C7, on two different lines of latin text.\<close>

theorem sanitize_clean_fixpoint_witness:
  "sanitize (of_ascii ''Hello there.'' @ [NL] @ of_ascii ''General text.'')
     = Inr (of_ascii ''Hello there.'' @ [NL] @ of_ascii ''General text.'')"
  using sanitize_clean_fixpoint [of \<open>of_ascii ''Hello there.'' @ [NL] @ of_ascii ''General text.''\<close>]
  by (simp add: eval_defs)

section \<open>The transcript of the prompt\<close>

text \<open>
  C8. With sessionMemory true and a history of more than 5 well-formed turns, the
  parts of the prompt are the system prompt, the transcript header, then for each of
  the last 5 turns, in order, its user line and its assistant line, then the new
  user line and the open assistant label; nothing of the earlier turns is among
  them. With sessionMemory false, or an empty history, the parts are the system
  prompt, the new user line and the assistant label only.
\<close>

theorem context_parts_transcript:
  "(5 < length turns \<and> map_of cfg (of_ascii ''sessionMemory'') = Some (JBool True) \<longrightarrow>
      context_parts f prompt (JObj cfg) (JArr (map turn_json turns)) =
        Inr ([SYSTEM_PROMPT, NL # of_ascii ''--- Recent Conversation ---'']
             @ concat (map turn_lines (drop (length turns - 5) turns))
             @ [NL # of_ascii ''User: '' @ fmt f prompt, of_ascii ''Assistant:''])
      \<and> length (drop (length turns - 5) turns) = 5)
   \<and> (map_of cfg (of_ascii ''sessionMemory'') = Some (JBool False) \<or> turns = [] \<longrightarrow>
      context_parts f prompt (JObj cfg) (JArr (map turn_json turns)) =
        Inr [SYSTEM_PROMPT, NL # of_ascii ''User: '' @ fmt f prompt, of_ascii ''Assistant:''])"
proof (intro conjI impI)
  assume a: "5 < length turns \<and> map_of cfg (of_ascii ''sessionMemory'') = Some (JBool True)"
  then have ne: "turns \<noteq> []" by auto
  show "context_parts f prompt (JObj cfg) (JArr (map turn_json turns)) =
        Inr ([SYSTEM_PROMPT, NL # of_ascii ''--- Recent Conversation ---'']
             @ concat (map turn_lines (drop (length turns - 5) turns))
             @ [NL # of_ascii ''User: '' @ fmt f prompt, of_ascii ''Assistant:''])"
    unfolding context_parts_def
    using a ne by (simp add: drop_map render_turns_turn_json)
  show "length (drop (length turns - 5) turns) = 5"
    using a by simp
next
  assume "map_of cfg (of_ascii ''sessionMemory'') = Some (JBool False) \<or> turns = []"
  then show "context_parts f prompt (JObj cfg) (JArr (map turn_json turns)) =
        Inr [SYSTEM_PROMPT, NL # of_ascii ''User: '' @ fmt f prompt, of_ascii ''Assistant:'']"
    unfolding context_parts_def by auto
qed

text \<open>
  C8, on a history of six turns (1, a) to (6, f): the transcript starts at the second
  turn.
\<close>

theorem context_parts_transcript_witness:
  "context_parts (\<lambda>v. []) (JStr (of_ascii ''hi''))
       (JObj [(of_ascii ''sessionMemory'', JBool True)])
       (JArr (map turn_json [([49], [97]), ([50], [98]), ([51], [99]), ([52], [100]), ([53], [101]), ([54], [102])]))
     = Inr [SYSTEM_PROMPT, NL # of_ascii ''--- Recent Conversation ---'',
            of_ascii ''User: 2'', of_ascii ''Assistant: b'',
            of_ascii ''User: 3'', of_ascii ''Assistant: c'',
            of_ascii ''User: 4'', of_ascii ''Assistant: d'',
            of_ascii ''User: 5'', of_ascii ''Assistant: e'',
            of_ascii ''User: 6'', of_ascii ''Assistant: f'',
            NL # of_ascii ''User: hi'', of_ascii ''Assistant:'']"
  using context_parts_transcript
    [of \<open>[([49], [97]), ([50], [98]), ([51], [99]), ([52], [100]), ([53], [101]), ([54], [102])]\<close>
        "[(of_ascii ''sessionMemory'', JBool True)]" "\<lambda>v. []" "JStr (of_ascii ''hi'')"]
  by (simp add: of_ascii_def turn_lines_def fmt_def)

section \<open>The token budget\<close>

text \<open>
  C9 (the code at a failing input). A config whose responseLength is a JSON array
  cannot be looked up in the table of limits: a list is not hashable, the lookup
  raises TypeError instead of falling back to 600, and the request is answered 500
  without a call into the engine.
\<close>

theorem max_tokens_unhashable:
  "max_tokens (JObj [(of_ascii ''responseLength'', JArr [])]) = Inl TypeError
   \<and> chat \<lparr>model_loaded = True, llm = (\<lambda>p n. Inr []), py_str = (\<lambda>v. [])\<rparr>
        (Inr (JObj [(of_ascii ''message'', JStr (of_ascii ''hi'')),
                    (of_ascii ''config'', JObj [(of_ascii ''responseLength'', JArr [])])]))
     = (\<lparr>status = 500, body = Error (Str TypeError)\<rparr>, [])"
  by (simp add: max_tokens_def chat_def generate_response_def context_parts_def of_ascii_def)

section \<open>Missing members of the body\<close>

text \<open>
  C10. With the model loaded, a body without the message key is answered 400 like an
  empty message; a body without config behaves as with an empty object for it and a
  body without history as with an empty list; and a body with a non-empty message
  and neither of the two reaches the engine, once, with the prompt without
  transcript and the default budget of 600, and is answered 200.
\<close>

theorem chat_defaults:
  assumes "model_loaded ev"
  shows "(map_of kvs (of_ascii ''message'') = None \<longrightarrow>
            chat ev (Inr (JObj kvs)) =
              (\<lparr>status = 400, body = Error (Message (of_ascii ''No message''))\<rparr>, []))
       \<and> (map_of kvs (of_ascii ''config'') = None \<longrightarrow>
            chat ev (Inr (JObj kvs)) = chat ev (Inr (JObj ((of_ascii ''config'', JObj []) # kvs))))
       \<and> (map_of kvs (of_ascii ''history'') = None \<longrightarrow>
            chat ev (Inr (JObj kvs)) = chat ev (Inr (JObj ((of_ascii ''history'', JArr []) # kvs))))
       \<and> (map_of kvs (of_ascii ''message'') = Some (JStr m) \<and> m \<noteq> [] \<and>
          map_of kvs (of_ascii ''config'') = None \<and> map_of kvs (of_ascii ''history'') = None \<longrightarrow>
            status (fst (chat ev (Inr (JObj kvs)))) = 200 \<and>
            snd (chat ev (Inr (JObj kvs))) =
              [(join_nl [SYSTEM_PROMPT, NL # of_ascii ''User: '' @ m, of_ascii ''Assistant:''], 600)])"
  using assms
  by (auto simp: chat_def generate_response_def context_parts_def max_tokens_def of_ascii_def
      fmt_def token_limits_def split: sum.splits)

text \<open>C10, on the empty object and on a body with nothing but a message.\<close>

theorem chat_defaults_witness:
  "chat \<lparr>model_loaded = True, llm = (\<lambda>p n. Inr []), py_str = (\<lambda>v. [])\<rparr> (Inr (JObj []))
     = (\<lparr>status = 400, body = Error (Message (of_ascii ''No message''))\<rparr>, [])
   \<and> chat \<lparr>model_loaded = True, llm = (\<lambda>p n. Inr []), py_str = (\<lambda>v. [])\<rparr>
        (Inr (JObj [(of_ascii ''message'', JStr (of_ascii ''hi''))]))
     = (\<lparr>status = 200, body = Response fallback\<rparr>,
        [(join_nl [SYSTEM_PROMPT, NL # of_ascii ''User: hi'', of_ascii ''Assistant:''], 600)])"
  using chat_defaults
    [of "\<lparr>model_loaded = True, llm = (\<lambda>p n. Inr []), py_str = (\<lambda>v. [])\<rparr>" "[]"]
    chat_defaults
    [of "\<lparr>model_loaded = True, llm = (\<lambda>p n. Inr []), py_str = (\<lambda>v. [])\<rparr>"
        "[(of_ascii ''message'', JStr (of_ascii ''hi''))]" "of_ascii ''hi''"]
  by (simp add: chat_defs eval_defs)

end
